theory Spec2Isabelle
  imports Main
begin

section \<open>logmux: the line tagger\<close>

text \<open>
  Go byte slices and strings are modelled as \<^typ>\<open>string\<close>, a list of 8-bit
  characters: \<^term>\<open>length\<close> counts bytes, as \<^verbatim>\<open>len\<close> does.
\<close>

subsection \<open>Library functions the tagger calls\<close>

text \<open>
  \<^verbatim>\<open>bytes.TrimSpace\<close> slices off leading and trailing white space as Unicode
  defines it. In the ASCII range these are tab, line feed, vertical tab, form feed,
  carriage return and space.
\<close>

definition asciiSpace :: "char \<Rightarrow> bool" where
  "asciiSpace c \<longleftrightarrow>
     c = CHR 0x09 \<or> c = CHR 0x0A \<or> c = CHR 0x0B \<or> c = CHR 0x0C \<or> c = CHR 0x0D \<or> c = CHR '' ''"

text \<open>
  Beyond ASCII, \<^verbatim>\<open>unicode.IsSpace\<close> holds of U+0085, U+00A0, U+1680,
  U+2000 to U+200A, U+2028, U+2029, U+202F, U+205F and U+3000. The trimmer decodes
  UTF-8, so it removes exactly the well-formed encodings of these code points.
\<close>

definition unicodeSpaces :: "string list" where
  "unicodeSpaces =
     [[CHR 0xC2, CHR 0x85], [CHR 0xC2, CHR 0xA0], [CHR 0xE1, CHR 0x9A, CHR 0x80],
      [CHR 0xE2, CHR 0x80, CHR 0x80], [CHR 0xE2, CHR 0x80, CHR 0x81],
      [CHR 0xE2, CHR 0x80, CHR 0x82], [CHR 0xE2, CHR 0x80, CHR 0x83],
      [CHR 0xE2, CHR 0x80, CHR 0x84], [CHR 0xE2, CHR 0x80, CHR 0x85],
      [CHR 0xE2, CHR 0x80, CHR 0x86], [CHR 0xE2, CHR 0x80, CHR 0x87],
      [CHR 0xE2, CHR 0x80, CHR 0x88], [CHR 0xE2, CHR 0x80, CHR 0x89],
      [CHR 0xE2, CHR 0x80, CHR 0x8A], [CHR 0xE2, CHR 0x80, CHR 0xA8],
      [CHR 0xE2, CHR 0x80, CHR 0xA9], [CHR 0xE2, CHR 0x80, CHR 0xAF],
      [CHR 0xE2, CHR 0x81, CHR 0x9F], [CHR 0xE3, CHR 0x80, CHR 0x80]]"

text \<open>
  The number of bytes of the white-space character a slice starts with
  (\<open>0\<close> when it starts with none), and the same for the character it ends with.
\<close>

definition leadingSpace :: "string \<Rightarrow> nat" where
  "leadingSpace s =
     (case s of
        [] \<Rightarrow> 0
      | c # _ \<Rightarrow>
          if asciiSpace c then 1
          else (case List.find (\<lambda>p. take (length p) s = p) unicodeSpaces of
                  Some p \<Rightarrow> length p
                | None \<Rightarrow> 0))"

definition trailingSpace :: "string \<Rightarrow> nat" where
  "trailingSpace s =
     (if s = [] then 0
      else if asciiSpace (last s) then 1
      else (case List.find (\<lambda>p. length p \<le> length s \<and> drop (length s - length p) s = p)
                   unicodeSpaces of
              Some p \<Rightarrow> length p
            | None \<Rightarrow> 0))"

lemma leadingSpace_le: "leadingSpace s \<le> length s"
proof (cases s)
  case Nil
  then show ?thesis by (simp add: leadingSpace_def)
next
  case (Cons c cs)
  show ?thesis
  proof (cases "List.find (\<lambda>p. take (length p) s = p) unicodeSpaces")
    case None
    with Cons show ?thesis by (simp add: leadingSpace_def)
  next
    case (Some p)
    then have "take (length p) s = p" by (auto simp: find_Some_iff)
    then have "length (take (length p) s) = length p" by simp
    then have "length p \<le> length s" by simp
    with Cons Some show ?thesis by (simp add: leadingSpace_def)
  qed
qed

lemma trailingSpace_le: "trailingSpace s \<le> length s"
proof (cases "s = []")
  case True
  then show ?thesis by (simp add: trailingSpace_def)
next
  case False
  then have "Suc 0 \<le> length s" by (cases s) simp_all
  then show ?thesis
    by (auto simp: trailingSpace_def find_Some_iff split: option.splits)
qed

function trimLeft :: "string \<Rightarrow> string" where
  "trimLeft s = (if leadingSpace s = 0 then s else trimLeft (drop (leadingSpace s) s))"
  by pat_completeness auto
termination
proof (relation "measure length")
  show "wf (measure length)" by simp
next
  fix s :: string
  assume "leadingSpace s \<noteq> 0"
  moreover have "leadingSpace s \<le> length s" by (rule leadingSpace_le)
  ultimately show "(drop (leadingSpace s) s, s) \<in> measure length" by simp
qed

function trimRight :: "string \<Rightarrow> string" where
  "trimRight s =
     (if trailingSpace s = 0 then s else trimRight (take (length s - trailingSpace s) s))"
  by pat_completeness auto
termination
proof (relation "measure length")
  show "wf (measure length)" by simp
next
  fix s :: string
  assume "trailingSpace s \<noteq> 0"
  moreover have "trailingSpace s \<le> length s" by (rule trailingSpace_le)
  ultimately show "(take (length s - trailingSpace s) s, s) \<in> measure length" by simp
qed

declare trimLeft.simps [simp del] trimRight.simps [simp del]

definition TrimSpace :: "string \<Rightarrow> string" where
  "TrimSpace s = trimRight (trimLeft s)"

text \<open>
  \<^verbatim>\<open>fmt.Sprintf("%q", tag)\<close> is \<^verbatim>\<open>strconv.Quote\<close>: the tag between
  double quotes, as a Go string literal. A double quote or a backslash gets a backslash
  in front, a printable ASCII byte stands for itself, seven control characters have
  a letter escape and every other byte below \<open>0x80\<close> is written \<^verbatim>\<open>\xNN\<close> in
  lower-case hexadecimal.
\<close>

definition lowerhex :: "nat \<Rightarrow> char" where
  "lowerhex n = ''0123456789abcdef'' ! (n mod 16)"

definition escapeASCII :: "char \<Rightarrow> string" where
  "escapeASCII c =
     (if c = CHR 0x22 \<or> c = CHR 0x5C then [CHR 0x5C, c]
      else if 32 \<le> (of_char c :: nat) \<and> (of_char c :: nat) < 127 then [c]
      else if c = CHR 0x07 then [CHR 0x5C, CHR ''a'']
      else if c = CHR 0x08 then [CHR 0x5C, CHR ''b'']
      else if c = CHR 0x0C then [CHR 0x5C, CHR ''f'']
      else if c = CHR 0x0A then [CHR 0x5C, CHR ''n'']
      else if c = CHR 0x0D then [CHR 0x5C, CHR ''r'']
      else if c = CHR 0x09 then [CHR 0x5C, CHR ''t'']
      else if c = CHR 0x0B then [CHR 0x5C, CHR ''v'']
      else [CHR 0x5C, CHR ''x'', lowerhex (of_char c div 16), lowerhex (of_char c)])"

text \<open>
  From \<open>0x80\<close> on, the quoter decodes one UTF-8 sequence and consults the Unicode
  tables of the standard library (\<^verbatim>\<open>strconv.IsPrint\<close>), which are not part of
  this repository. That step is a parameter: given the bytes that remain, it returns
  what is emitted for the leading sequence and how many bytes that sequence takes
  (at least one).
\<close>

type_synonym rune_quoter = "string \<Rightarrow> string \<times> nat"

fun quoteBytes :: "rune_quoter \<Rightarrow> string \<Rightarrow> string" where
  "quoteBytes mb [] = []"
| "quoteBytes mb (c # cs) =
     (if (of_char c :: nat) < 128 then escapeASCII c @ quoteBytes mb cs
      else fst (mb (c # cs)) @ quoteBytes mb (drop (snd (mb (c # cs)) - 1) cs))"

text \<open>
  One such step, used where a concrete one is needed: what the quoter emits for a byte
  that starts no well-formed UTF-8 sequence, the escape \<^verbatim>\<open>\xNN\<close> of that byte alone.
\<close>

definition escapeInvalid :: rune_quoter where
  "escapeInvalid s =
     (case s of
        [] \<Rightarrow> ([], 1)
      | c # _ \<Rightarrow> ([CHR 0x5C, CHR ''x'', lowerhex (of_char c div 16), lowerhex (of_char c)], 1))"

definition Quote :: "rune_quoter \<Rightarrow> string \<Rightarrow> string" where
  "Quote mb s = [CHR 0x22] @ quoteBytes mb s @ [CHR 0x22]"

text \<open>
  The bytes the quoter leaves as they are: printable ASCII other than the double quote
  and the backslash.
\<close>

definition plainByte :: "char \<Rightarrow> bool" where
  "plainByte c \<longleftrightarrow>
     32 \<le> (of_char c :: nat) \<and> (of_char c :: nat) < 127 \<and> c \<noteq> CHR 0x22 \<and> c \<noteq> CHR 0x5C"

text \<open>A Go slice expression \<^verbatim>\<open>b[lo:hi]\<close>, for \<open>lo \<le> hi \<le> len(b)\<close>.\<close>

definition slice :: "string \<Rightarrow> nat \<Rightarrow> nat \<Rightarrow> string" where
  "slice b lo hi = take (hi - lo) (drop lo b)"

subsection \<open>hasNonSpace and processLine\<close>

fun hasNonSpace :: "string \<Rightarrow> bool" where
  "hasNonSpace [] = False"
| "hasNonSpace (b # bs) =
     (if b \<noteq> CHR '' '' \<and> b \<noteq> CHR 0x09 \<and> b \<noteq> CHR 0x0D \<and> b \<noteq> CHR 0x0A then True
      else hasNonSpace bs)"

text \<open>
  \<^verbatim>\<open>processLine\<close>. The slice \<^verbatim>\<open>buf[1:lst]\<close> is taken only when the first byte
  is an opening and the last byte a closing brace, so \<open>1 \<le> lst\<close> there and the slice
  expression cannot panic.
\<close>

definition processLine :: "rune_quoter \<Rightarrow> string \<Rightarrow> string \<Rightarrow> string" where
  \<open>processLine mb buf0 tag =
     (let buf = TrimSpace buf0 in
      if length buf = 0 then buf
      else
        let lst = length buf - 1;
            buf1 =
              (if buf ! 0 = CHR ''{'' \<and> buf ! lst = CHR ''}'' then
                 (if hasNonSpace (slice buf 1 lst)
                  then slice buf 0 lst @ ('',"tag":'' @ Quote mb tag @ ''}'')
                  else ''{"tag":'' @ Quote mb tag @ ''}'')
               else (tag @ '': '') @ buf)
        in buf1 @ [CHR 0x0A])\<close>

section \<open>Streams, the sink and one read\<close>

text \<open>
  A Go \<^verbatim>\<open>error\<close> that is not \<^verbatim>\<open>nil\<close>: either the value \<^verbatim>\<open>io.EOF\<close> or
  some other error, known by its message. A \<^verbatim>\<open>nil\<close> error is \<^const>\<open>None\<close>.
\<close>

datatype error = EOF | Err string

fun errorString :: "error \<Rightarrow> string" where
  "errorString EOF = ''EOF''"
| "errorString (Err m) = m"

text \<open>
  A \<^verbatim>\<open>*bufio.Reader\<close> over a byte stream that ends: the bytes not yet read and
  the error the underlying file gives once they are used up. A read that would wait
  for ever is outside this model.
\<close>

record reader =
  pending :: string
  final :: error

text \<open>
  \<^verbatim>\<open>ReadBytes('\n')\<close> returns the bytes up to and including the first line feed,
  or, when none is left, all that remains together with the stream's error.
\<close>

definition ReadBytes :: "reader \<Rightarrow> string \<times> error option \<times> reader" where
  "ReadBytes r =
     (if CHR 0x0A \<in> set (pending r)
      then (takeWhile (\<lambda>c. c \<noteq> CHR 0x0A) (pending r) @ [CHR 0x0A], None,
            r\<lparr>pending := tl (dropWhile (\<lambda>c. c \<noteq> CHR 0x0A) (pending r))\<rparr>)
      else (pending r, Some (final r), r\<lparr>pending := []\<rparr>))"

record BaseStream =
  tag :: string
  raw :: string
  source :: "reader option"

datatype Stream = PipeStream BaseStream int | NamedPipeStream BaseStream string

fun base :: "Stream \<Rightarrow> BaseStream" where
  "base (PipeStream b fd) = b"
| "base (NamedPipeStream b path) = b"

definition Source :: "Stream \<Rightarrow> reader option" where
  "Source s = source (base s)"

definition Raw :: "Stream \<Rightarrow> string" where
  "Raw s = raw (base s)"

definition Tag :: "Stream \<Rightarrow> string" where
  "Tag s = tag (base s)"

fun setSource :: "Stream \<Rightarrow> reader option \<Rightarrow> Stream" where
  "setSource (PipeStream b fd) r = PipeStream (b\<lparr>source := r\<rparr>) fd"
| "setSource (NamedPipeStream b path) r = NamedPipeStream (b\<lparr>source := r\<rparr>) path"

definition MarkClosed :: "Stream \<Rightarrow> Stream" where
  "MarkClosed s = setSource s None"

text \<open>
  What the operating system contributes: the result of opening a path for reading
  (\<^verbatim>\<open>os.OpenFile\<close>) and the lines printed to the error stream so far.
\<close>

record os =
  files :: "string \<Rightarrow> error + reader"
  stderr :: "string list"

fun Preread :: "Stream \<Rightarrow> os \<Rightarrow> error option \<times> Stream \<times> os" where
  "Preread (PipeStream b fd) w =
     (if source b = None then (Some EOF, PipeStream b fd, w)
      else (None, PipeStream b fd, w))"
| "Preread (NamedPipeStream b path) w =
     (if source b \<noteq> None then (None, NamedPipeStream b path, w)
      else
        (case files w path of
           Inl err \<Rightarrow> (Some err, NamedPipeStream b path, w)
         | Inr file \<Rightarrow>
             (None, NamedPipeStream (b\<lparr>source := Some file\<rparr>) path,
              w\<lparr>stderr := stderr w @
                 [''opened named pipe for tag '' @ tag b @ '': '' @ path @ [CHR 0x0A]]\<rparr>)))"

text \<open>
  The open connection of a \<^verbatim>\<open>LogstashService\<close>: the buffers handed to
  \<^verbatim>\<open>Write\<close> so far, one entry per call, and the errors its coming calls return
  (a call beyond the list succeeds).
\<close>

record writer =
  written :: "string list"
  results :: "error option list"

record LogstashService =
  sink :: writer

definition Write :: "LogstashService \<Rightarrow> string \<Rightarrow> error option \<times> LogstashService" where
  "Write l buf =
     (case results (sink l) of
        [] \<Rightarrow> (None, l\<lparr>sink := (sink l)\<lparr>written := written (sink l) @ [buf]\<rparr>\<rparr>)
      | e # es \<Rightarrow>
          (e, l\<lparr>sink := (sink l)\<lparr>written := written (sink l) @ [buf], results := es\<rparr>\<rparr>))"

text \<open>
  \<^verbatim>\<open>readOne\<close>. After a \<^verbatim>\<open>Preread\<close> without error the source is present in
  both variants; the branch for an absent one stands for the nil dereference of
  \<^verbatim>\<open>s.Source().ReadBytes\<close> and is never taken (lemma \<open>Preread_ok_Source\<close>).
\<close>

definition readOne ::
  "rune_quoter \<Rightarrow> Stream \<Rightarrow> LogstashService \<Rightarrow> os \<Rightarrow>
     error option \<times> Stream \<times> LogstashService \<times> os" where
  "readOne mb s l w =
     (case Preread s w of
        (Some err, s1, w1) \<Rightarrow> (Some err, s1, l, w1)
      | (None, s1, w1) \<Rightarrow>
          (case Source s1 of
             None \<Rightarrow> (Some (Err ''panic: nil pointer dereference''), s1, l, w1)
           | Some r \<Rightarrow>
               (case ReadBytes r of
                  (buf, err, r1) \<Rightarrow>
                    let s2 = setSource s1 (Some r1);
                        (e2, l1) =
                          (if length buf > 0 then Write l (processLine mb buf (Tag s2))
                           else (None, l))
                    in if err = Some EOF then (None, MarkClosed s2, l1, w1)
                       else if err \<noteq> None then (err, s2, l1, w1)
                       else if e2 \<noteq> None then (e2, s2, l1, w1)
                       else (None, s2, l1, w1))))"

text \<open>
  The runner \<^verbatim>\<open>Run\<close>: it repeats \<^verbatim>\<open>readOne\<close> until the first error, which it
  sends on the channel. The loop has no bound in the source, so the model counts
  iterations: \<^const>\<open>None\<close> means the runner is still looping after that many.
  The value it returns is the error sent.
\<close>

fun Run ::
  "nat \<Rightarrow> rune_quoter \<Rightarrow> Stream \<Rightarrow> LogstashService \<Rightarrow> os \<Rightarrow> bool \<Rightarrow>
     (error \<times> Stream \<times> LogstashService \<times> os) option" where
  "Run 0 mb s l w single = None"
| "Run (Suc k) mb s l w single =
     (case readOne mb s l w of
        (Some err, s1, l1, w1) \<Rightarrow>
          Some (err, s1, l1,
                if \<not> single
                then w1\<lparr>stderr := stderr w1 @
                        [Tag s1 @ '': ending log read loop on condition: '' @
                         errorString err @ [CHR 0x0A]]\<rparr>
                else w1)
      | (None, s1, l1, w1) \<Rightarrow> Run k mb s1 l1 w1 single)"

text \<open>
  A number of successive \<^verbatim>\<open>readOne\<close> calls on one stream, whatever each
  returns, with the outcome of every call in order.
\<close>

fun attempts ::
  "nat \<Rightarrow> rune_quoter \<Rightarrow> Stream \<Rightarrow> LogstashService \<Rightarrow> os \<Rightarrow>
     error option list \<times> Stream \<times> LogstashService \<times> os" where
  "attempts 0 mb s l w = ([], s, l, w)"
| "attempts (Suc k) mb s l w =
     (case readOne mb s l w of
        (e, s1, l1, w1) \<Rightarrow>
          (case attempts k mb s1 l1 w1 of
             (es, s2, l2, w2) \<Rightarrow> (e # es, s2, l2, w2)))"

section \<open>The multiplexer\<close>

text \<open>
  What \<^verbatim>\<open>Mux.Run\<close> has set up when its receiving loop starts: the channel made by
  \<^verbatim>\<open>make(chan error, 10)\<close>, the counter \<^verbatim>\<open>n\<close> after one increment per
  stream, and the flag handed to every runner.
\<close>

record launch =
  capacity :: nat
  running :: int
  isSingle :: bool

definition Mux_launch :: "Stream list \<Rightarrow> launch" where
  "Mux_launch streams =
     \<lparr>capacity = 10,
      running = foldl (\<lambda>n s. n + 1) 0 streams,
      isSingle = (length streams = 1)\<rparr>"

text \<open>
  The receiving loop \<^verbatim>\<open>for err := range ch\<close>, over the errors the channel
  delivers, in the order of delivery. Only runners send, and a runner sends only an
  error that is not \<^verbatim>\<open>nil\<close>. Nothing closes the channel, so when no further
  value arrives the loop waits for ever: \<open>Blocked\<close>.
\<close>

datatype run_result = Returned "error option" | Blocked

fun aggregate :: "int \<Rightarrow> error list \<Rightarrow> run_result" where
  "aggregate n [] = Blocked"
| "aggregate n (err # rest) =
     (if err \<noteq> EOF then Returned (Some err)
      else if n - 1 = 0 then Returned None
      else aggregate (n - 1) rest)"

text \<open>
  \<^verbatim>\<open>Mux.Run\<close>, given the result of \<^verbatim>\<open>m.Configure()\<close> and the values the
  channel delivers.
\<close>

definition Mux_Run :: "error option \<Rightarrow> Stream list \<Rightarrow> error list \<Rightarrow> run_result" where
  "Mux_Run configured streams delivered =
     (case configured of
        Some err \<Rightarrow> Returned (Some err)
      | None \<Rightarrow> aggregate (running (Mux_launch streams)) delivered)"

section \<open>Stream specifications\<close>

text \<open>\<^verbatim>\<open>strings.Split\<close> with a separator of one byte.\<close>

fun Split :: "string \<Rightarrow> char \<Rightarrow> string list" where
  "Split [] sep = [[]]"
| "Split (c # cs) sep =
     (if c = sep then [] # Split cs sep
      else (case Split cs sep of
              [] \<Rightarrow> [[c]]
            | p # ps \<Rightarrow> (c # p) # ps))"

text \<open>
  \<^verbatim>\<open>strconv.ParseInt(s, 10, 64)\<close>: an optional sign, then one or more decimal
  digits, and a value that fits 64 signed bits; \<^const>\<open>None\<close> when it returns an
  error.
\<close>

definition isDigit :: "char \<Rightarrow> bool" where
  "isDigit c \<longleftrightarrow> 48 \<le> (of_char c :: nat) \<and> (of_char c :: nat) \<le> 57"

definition decimal :: "string \<Rightarrow> nat" where
  "decimal ds = foldl (\<lambda>n c. 10 * n + (of_char c - 48)) 0 ds"

definition ParseInt :: "string \<Rightarrow> int option" where
  "ParseInt s0 =
     (case s0 of
        [] \<Rightarrow> None
      | c # cs \<Rightarrow>
          let neg = (c = CHR ''-'');
              ds = (if c = CHR ''+'' \<or> c = CHR ''-'' then cs else s0)
          in if ds = [] \<or> \<not> list_all isDigit ds then None
             else if \<not> neg \<and> 2 ^ 63 \<le> decimal ds then None
             else if neg \<and> 2 ^ 63 < decimal ds then None
             else Some (if neg then - int (decimal ds) else int (decimal ds)))"

text \<open>Decimal digits of a number, for \<^verbatim>\<open>%d\<close>.\<close>

function itoa :: "nat \<Rightarrow> string" where
  "itoa n =
     (if n < 10 then [''0123456789'' ! n]
      else itoa (n div 10) @ [''0123456789'' ! (n mod 10)])"
  by pat_completeness auto
termination
  by (relation "measure id") auto

declare itoa.simps [simp del]

definition parseStreamArg :: "string \<Rightarrow> error + Stream" where
  "parseStreamArg r =
     (let parts = Split r (CHR '':'') in
      if length parts \<noteq> 2
      then Inl (Err (''Specified stream '' @ r @ '' has wrong number of components ('' @
                     itoa (length parts) @ '')''))
      else
        let baseStream = \<lparr>tag = parts ! 1, raw = r, source = None\<rparr> in
        (case ParseInt (parts ! 0) of
           Some fd \<Rightarrow> Inr (PipeStream baseStream fd)
         | None \<Rightarrow> Inr (NamedPipeStream baseStream (parts ! 0))))"

section \<open>Properties of stream specifications\<close>

lemma Split_length: "length (Split s c) = Suc (count_list s c)"
  by (induction s) (auto split: list.splits)

lemma Split_not_Nil: "Split s c \<noteq> []"
  by (induction s) (auto split: list.splits)

lemma Split_hd: "Split s c ! 0 = takeWhile (\<lambda>x. x \<noteq> c) s"
  using Split_not_Nil [of _ c] by (induction s) (auto split: list.splits)

lemma Split_no_sep: "count_list s c = 0 \<Longrightarrow> Split s c = [s]"
  by (induction s) (auto split: list.splits if_splits)

lemma Split_two:
  "count_list s c = 1 \<Longrightarrow>
   Split s c = [takeWhile (\<lambda>x. x \<noteq> c) s, tl (dropWhile (\<lambda>x. x \<noteq> c) s)]"
proof (induction s)
  case Nil
  then show ?case by simp
next
  case (Cons x xs)
  show ?case
  proof (cases "x = c")
    case True
    with Cons.prems have "count_list xs c = 0" by simp
    with True show ?thesis by (simp add: Split_no_sep)
  next
    case False
    with Cons.prems have "count_list xs c = 1" by simp
    with False Cons.IH show ?thesis by simp
  qed
qed

text \<open>
  Claim C8. A specification parses iff splitting it at the colons gives exactly two
  parts, that is, iff it holds exactly one colon (\<open>Split_length\<close>); the parts are
  then what precedes and what follows that colon (\<open>Split_two\<close>). When
  \<^verbatim>\<open>strconv.ParseInt\<close> accepts the first part (a decimal integer that fits 64
  signed bits) the result is a descriptor stream with that number and the second part
  as tag, otherwise a named-pipe stream with the first part as path and the second as
  tag. With any other number of parts the result is an error.
\<close>

theorem parseStreamArg_spec:
  "(length (Split r (CHR '':'')) = 2 \<longleftrightarrow> count_list r (CHR '':'') = 1) \<and>
   parseStreamArg r =
     (if count_list r (CHR '':'') = 1
      then (case ParseInt (takeWhile (\<lambda>c. c \<noteq> CHR '':'') r) of
              Some fd \<Rightarrow>
                Inr (PipeStream
                  \<lparr>tag = tl (dropWhile (\<lambda>c. c \<noteq> CHR '':'') r), raw = r, source = None\<rparr> fd)
            | None \<Rightarrow>
                Inr (NamedPipeStream
                  \<lparr>tag = tl (dropWhile (\<lambda>c. c \<noteq> CHR '':'') r), raw = r, source = None\<rparr>
                  (takeWhile (\<lambda>c. c \<noteq> CHR '':'') r)))
      else Inl (Err (''Specified stream '' @ r @ '' has wrong number of components ('' @
                     itoa (Suc (count_list r (CHR '':''))) @ '')'')))"
proof (cases "count_list r (CHR '':'') = 1")
  case True
  then show ?thesis
    by (simp add: parseStreamArg_def Split_two split: option.splits)
next
  case False
  then show ?thesis
    by (simp add: parseStreamArg_def Split_length)
qed

text \<open>
  The examples of the interface description, and the 64-bit range of a descriptor
  number: a decimal number beyond it is taken as a path.
\<close>

lemma parseStreamArg_examples:
  \<open>parseStreamArg ''7:launch.log'' =
     Inr (PipeStream \<lparr>tag = ''launch.log'', raw = ''7:launch.log'', source = None\<rparr> 7) \<and>
   parseStreamArg ''/var/log/x:nginx.access'' =
     Inr (NamedPipeStream
       \<lparr>tag = ''nginx.access'', raw = ''/var/log/x:nginx.access'', source = None\<rparr>
       ''/var/log/x'') \<and>
   parseStreamArg ''a:b:c'' =
     Inl (Err ''Specified stream a:b:c has wrong number of components (3)'') \<and>
   parseStreamArg ''9223372036854775808:t'' =
     Inr (NamedPipeStream \<lparr>tag = ''t'', raw = ''9223372036854775808:t'', source = None\<rparr>
       ''9223372036854775808'')\<close>
  by (simp add: parseStreamArg_def ParseInt_def Let_def isDigit_def decimal_def itoa.simps)

lemma ParseInt_range: "ParseInt s = Some n \<Longrightarrow> - (2 ^ 63) \<le> n \<and> n < 2 ^ 63"
  by (cases s) (auto simp: ParseInt_def Let_def split: if_splits)

text \<open>
  Claim C10. Beyond the count nothing is checked: \<^verbatim>\<open>":tag"\<close> gives a named-pipe
  stream with the empty path, \<^verbatim>\<open>"5:"\<close> a stream with the empty tag, and
  \<^verbatim>\<open>"-3:tag"\<close> a descriptor stream with a negative descriptor number.
\<close>

theorem parseStreamArg_degenerate:
  \<open>parseStreamArg '':tag'' =
     Inr (NamedPipeStream \<lparr>tag = ''tag'', raw = '':tag'', source = None\<rparr> '''') \<and>
   parseStreamArg ''5:'' = Inr (PipeStream \<lparr>tag = '''', raw = ''5:'', source = None\<rparr> 5) \<and>
   parseStreamArg ''-3:tag'' =
     Inr (PipeStream \<lparr>tag = ''tag'', raw = ''-3:tag'', source = None\<rparr> (- 3))\<close>
  by (simp add: parseStreamArg_def ParseInt_def Let_def isDigit_def decimal_def)

section \<open>Properties of one read\<close>

lemma Tag_setSource: "Tag (setSource s r) = Tag s"
  by (cases s) (simp_all add: Tag_def)

lemma Raw_setSource: "Raw (setSource s r) = Raw s"
  by (cases s) (simp_all add: Raw_def)

lemma Source_setSource: "Source (setSource s r) = r"
  by (cases s) (simp_all add: Source_def)

lemma Preread_ok_Source: "Preread s w = (None, s1, w1) \<Longrightarrow> Source s1 \<noteq> None"
  by (cases s) (auto simp: Source_def split: if_splits sum.splits)

lemma Preread_error_same: "Preread s w = (Some e, s1, w1) \<Longrightarrow> s1 = s \<and> w1 = w"
  by (cases s) (auto split: if_splits sum.splits)

text \<open>
  Claim C9. When \<^verbatim>\<open>Preread\<close> returns an error, \<^verbatim>\<open>readOne\<close> returns that
  error, and the stream (tag, raw specification and source, hence also the bytes not
  yet read from it), the sink and the operating-system state are what they were:
  nothing was read and nothing was written.
\<close>

theorem readOne_Preread_error:
  "Preread s w = (Some e, s1, w1) \<Longrightarrow>
   s1 = s \<and> w1 = w \<and> readOne mb s l w = (Some e, s, l, w)"
proof -
  assume p: "Preread s w = (Some e, s1, w1)"
  then have same: "s1 = s \<and> w1 = w" by (rule Preread_error_same)
  with p show ?thesis by (simp add: readOne_def)
qed

theorem readOne_Preread_error_witness:
  "Preread (NamedPipeStream \<lparr>tag = ''nginx.access'', raw = ''/var/log/x:nginx.access'', source = None\<rparr> ''/var/log/x'')
     \<lparr>files = (\<lambda>p. Inl (Err ''permission denied'')), stderr = []\<rparr> =
     (Some (Err ''permission denied''),
      NamedPipeStream \<lparr>tag = ''nginx.access'', raw = ''/var/log/x:nginx.access'', source = None\<rparr> ''/var/log/x'',
      \<lparr>files = (\<lambda>p. Inl (Err ''permission denied'')), stderr = []\<rparr>) \<and>
   readOne escapeInvalid
     (NamedPipeStream \<lparr>tag = ''nginx.access'', raw = ''/var/log/x:nginx.access'', source = None\<rparr> ''/var/log/x'')
     \<lparr>sink = \<lparr>written = [], results = []\<rparr>\<rparr>
     \<lparr>files = (\<lambda>p. Inl (Err ''permission denied'')), stderr = []\<rparr> =
     (Some (Err ''permission denied''),
      NamedPipeStream \<lparr>tag = ''nginx.access'', raw = ''/var/log/x:nginx.access'', source = None\<rparr> ''/var/log/x'',
      \<lparr>sink = \<lparr>written = [], results = []\<rparr>\<rparr>,
      \<lparr>files = (\<lambda>p. Inl (Err ''permission denied'')), stderr = []\<rparr>)"
  using readOne_Preread_error
    [of "NamedPipeStream \<lparr>tag = ''nginx.access'', raw = ''/var/log/x:nginx.access'', source = None\<rparr> ''/var/log/x''"
        "\<lparr>files = (\<lambda>p. Inl (Err ''permission denied'')), stderr = []\<rparr>"
        "Err ''permission denied''"
        "NamedPipeStream \<lparr>tag = ''nginx.access'', raw = ''/var/log/x:nginx.access'', source = None\<rparr> ''/var/log/x''"
        "\<lparr>files = (\<lambda>p. Inl (Err ''permission denied'')), stderr = []\<rparr>"
        escapeInvalid "\<lparr>sink = \<lparr>written = [], results = []\<rparr>\<rparr>"]
  by simp

lemma readOne_closed_pipe:
  "source b = None \<Longrightarrow> readOne mb (PipeStream b fd) l w = (Some EOF, PipeStream b fd, l, w)"
  by (simp add: readOne_def)

lemma attempts_closed_pipe:
  "source b = None \<Longrightarrow>
   attempts k mb (PipeStream b fd) l w = (replicate k (Some EOF), PipeStream b fd, l, w)"
  by (induction k) (simp_all add: readOne_closed_pipe)

text \<open>
  Claim C7. \<^verbatim>\<open>MarkClosed\<close> clears the source of a descriptor stream, and a
  descriptor stream without source stays so: \<^verbatim>\<open>Preread\<close> returns
  \<^verbatim>\<open>io.EOF\<close> at once, \<^verbatim>\<open>readOne\<close> returns it with the stream, the sink and
  the operating-system state unchanged (no reopening, no line written), any number of
  further attempts do the same, and the runner ends on its first iteration with
  \<^verbatim>\<open>io.EOF\<close>.
\<close>

theorem PipeStream_closed_is_permanent:
  "MarkClosed (PipeStream b fd) = PipeStream (b\<lparr>source := None\<rparr>) fd \<and>
   (source b = None \<longrightarrow>
      Preread (PipeStream b fd) w = (Some EOF, PipeStream b fd, w) \<and>
      readOne mb (PipeStream b fd) l w = (Some EOF, PipeStream b fd, l, w) \<and>
      attempts k mb (PipeStream b fd) l w =
        (replicate k (Some EOF), PipeStream b fd, l, w) \<and>
      Run (Suc k) mb (PipeStream b fd) l w single =
        Some (EOF, PipeStream b fd, l,
              if \<not> single
              then w\<lparr>stderr := stderr w @
                      [tag b @ '': ending log read loop on condition: EOF'' @ [CHR 0x0A]]\<rparr>
              else w))"
proof (intro conjI impI)
  show "MarkClosed (PipeStream b fd) = PipeStream (b\<lparr>source := None\<rparr>) fd"
    by (simp add: MarkClosed_def)
next
  assume c: "source b = None"
  then show "Preread (PipeStream b fd) w = (Some EOF, PipeStream b fd, w)" by simp
  from c show r: "readOne mb (PipeStream b fd) l w = (Some EOF, PipeStream b fd, l, w)"
    by (rule readOne_closed_pipe)
  from c show "attempts k mb (PipeStream b fd) l w =
        (replicate k (Some EOF), PipeStream b fd, l, w)"
    by (rule attempts_closed_pipe)
  from r show "Run (Suc k) mb (PipeStream b fd) l w single =
        Some (EOF, PipeStream b fd, l,
              if \<not> single
              then w\<lparr>stderr := stderr w @
                      [tag b @ '': ending log read loop on condition: EOF'' @ [CHR 0x0A]]\<rparr>
              else w)"
    by (simp add: Tag_def)
qed

theorem PipeStream_closed_is_permanent_witness:
  "source \<lparr>tag = ''app.error'', raw = ''6:app.error'', source = None\<rparr> = None \<and>
   Preread (PipeStream \<lparr>tag = ''app.error'', raw = ''6:app.error'', source = None\<rparr> 6)
     \<lparr>files = (\<lambda>p. Inl (Err ''no such file'')), stderr = []\<rparr> =
     (Some EOF, PipeStream \<lparr>tag = ''app.error'', raw = ''6:app.error'', source = None\<rparr> 6,
      \<lparr>files = (\<lambda>p. Inl (Err ''no such file'')), stderr = []\<rparr>) \<and>
   attempts 3 escapeInvalid
     (PipeStream \<lparr>tag = ''app.error'', raw = ''6:app.error'', source = None\<rparr> 6)
     \<lparr>sink = \<lparr>written = [], results = []\<rparr>\<rparr>
     \<lparr>files = (\<lambda>p. Inl (Err ''no such file'')), stderr = []\<rparr> =
     ([Some EOF, Some EOF, Some EOF],
      PipeStream \<lparr>tag = ''app.error'', raw = ''6:app.error'', source = None\<rparr> 6,
      \<lparr>sink = \<lparr>written = [], results = []\<rparr>\<rparr>,
      \<lparr>files = (\<lambda>p. Inl (Err ''no such file'')), stderr = []\<rparr>)"
  using PipeStream_closed_is_permanent
    [of "\<lparr>tag = ''app.error'', raw = ''6:app.error'', source = None\<rparr>" 6
        "\<lparr>files = (\<lambda>p. Inl (Err ''no such file'')), stderr = []\<rparr>"
        escapeInvalid "\<lparr>sink = \<lparr>written = [], results = []\<rparr>\<rparr>" 3 True]
  by (simp add: numeral_3_eq_3)

section \<open>Properties of the multiplexer\<close>

lemma running_Mux_launch: "running (Mux_launch streams) = int (length streams)"
proof -
  have "foldl (\<lambda>n s. n + 1) k streams = k + int (length streams)" for k :: int
    by (induction streams arbitrary: k) simp_all
  then show ?thesis by (simp add: Mux_launch_def)
qed

lemma aggregate_success_iff:
  "1 \<le> n \<Longrightarrow>
   aggregate n ds = Returned None \<longleftrightarrow>
     nat n \<le> length ds \<and> (\<forall>e \<in> set (take (nat n) ds). e = EOF)"
proof (induction ds arbitrary: n)
  case Nil
  then show ?case by simp
next
  case (Cons d ds)
  show ?case
  proof (cases "d = EOF")
    case False
    with Cons.prems show ?thesis
      by (cases "nat n") auto
  next
    case True
    show ?thesis
    proof (cases "n = 1")
      case True
      with \<open>d = EOF\<close> show ?thesis by simp
    next
      case False
      with Cons.prems have n: "1 \<le> n - 1" by simp
      from Cons.prems have nat: "nat n = Suc (nat (n - 1))" by simp
      from False \<open>d = EOF\<close> Cons.IH [OF n] show ?thesis
        by (simp add: nat)
    qed
  qed
qed

lemma aggregate_first_error:
  "\<forall>x \<in> set pre. x = EOF \<Longrightarrow> e \<noteq> EOF \<Longrightarrow> int (length pre) < n \<Longrightarrow>
   aggregate n (pre @ e # post) = Returned (Some e)"
  by (induction pre arbitrary: n) auto

lemma aggregate_blocked_iff:
  "1 \<le> n \<Longrightarrow>
   aggregate n ds = Blocked \<longleftrightarrow> length ds < nat n \<and> (\<forall>e \<in> set ds. e = EOF)"
proof (induction ds arbitrary: n)
  case Nil
  then show ?case by simp
next
  case (Cons d ds)
  show ?case
  proof (cases "d = EOF \<and> n \<noteq> 1")
    case False
    with Cons.prems show ?thesis by auto
  next
    case True
    with Cons.prems have n: "1 \<le> n - 1" by simp
    from Cons.prems have nat: "nat n = Suc (nat (n - 1))" by simp
    from True Cons.IH [OF n] show ?thesis
      by (simp add: nat)
  qed
qed

text \<open>
  Claim C2. After a successful \<^verbatim>\<open>Configure\<close>, with at least one stream (the
  argument parser refuses an empty list), \<^verbatim>\<open>Mux.Run\<close> returns \<^verbatim>\<open>nil\<close>
  exactly when the channel delivers as many values as there are streams and each of
  them is \<^verbatim>\<open>io.EOF\<close>, which is when the counter reaches zero. When a value other
  than \<^verbatim>\<open>io.EOF\<close> arrives after fewer than that many \<^verbatim>\<open>io.EOF\<close>s, it
  returns that value, whatever is delivered later: it does not wait for the other
  runners.
\<close>

theorem Mux_Run_policy:
  "streams \<noteq> [] \<Longrightarrow>
   (Mux_Run None streams ds = Returned None \<longleftrightarrow>
      length streams \<le> length ds \<and> (\<forall>e \<in> set (take (length streams) ds). e = EOF)) \<and>
   ((\<forall>x \<in> set pre. x = EOF) \<and> e \<noteq> EOF \<and> length pre < length streams \<longrightarrow>
      Mux_Run None streams (pre @ e # post) = Returned (Some e))"
proof -
  assume "streams \<noteq> []"
  then have n: "1 \<le> int (length streams)" by (cases streams) simp_all
  show ?thesis
    using aggregate_success_iff [OF n, of ds] aggregate_first_error [of pre e "int (length streams)" post]
    by (simp add: Mux_Run_def running_Mux_launch)
qed

theorem Mux_Run_policy_witness:
  "[PipeStream \<lparr>tag = ''app.error'', raw = ''6:app.error'', source = None\<rparr> 6,
    PipeStream \<lparr>tag = ''launch.log'', raw = ''7:launch.log'', source = None\<rparr> 7] \<noteq> [] \<and>
   Mux_Run None
     [PipeStream \<lparr>tag = ''app.error'', raw = ''6:app.error'', source = None\<rparr> 6,
      PipeStream \<lparr>tag = ''launch.log'', raw = ''7:launch.log'', source = None\<rparr> 7]
     [EOF, EOF] = Returned None \<and>
   Mux_Run None
     [PipeStream \<lparr>tag = ''app.error'', raw = ''6:app.error'', source = None\<rparr> 6,
      PipeStream \<lparr>tag = ''launch.log'', raw = ''7:launch.log'', source = None\<rparr> 7]
     ([EOF] @ Err ''read error'' # []) = Returned (Some (Err ''read error''))"
  using Mux_Run_policy
    [of "[PipeStream \<lparr>tag = ''app.error'', raw = ''6:app.error'', source = None\<rparr> 6,
          PipeStream \<lparr>tag = ''launch.log'', raw = ''7:launch.log'', source = None\<rparr> 7]"
        "[EOF, EOF]" "[EOF]" "Err ''read error''" "[]"]
  by simp

text \<open>
  Claim C3, as amended. The channel is made with the fixed capacity 10, whatever the
  number of streams; so its capacity is at least the number of streams exactly when
  there are at most 10 of them.
\<close>

theorem Mux_launch_capacity:
  "capacity (Mux_launch streams) = 10 \<and>
   (length streams \<le> capacity (Mux_launch streams) \<longleftrightarrow> length streams \<le> 10)"
  by (simp add: Mux_launch_def)

text \<open>With eleven streams the capacity is below the number of streams.\<close>

theorem Mux_launch_capacity_counterexample:
  "\<not> length (replicate 11 (PipeStream \<lparr>tag = ''t'', raw = ''3:t'', source = None\<rparr> 3))
       \<le> capacity (Mux_launch (replicate 11 (PipeStream \<lparr>tag = ''t'', raw = ''3:t'', source = None\<rparr> 3)))"
  by (simp add: Mux_launch_def)

section \<open>Properties of one read: write failures and blank lines\<close>

lemma Tag_Preread: "Preread s w = (e, s1, w1) \<Longrightarrow> Tag s1 = Tag s"
  by (cases s) (auto simp: Tag_def split: if_splits sum.splits)

lemma readOne_after_Preread:
  assumes "Preread s w = (None, s1, w1)" and "Source s1 = Some r"
    and "ReadBytes r = (buf, err, r1)"
    and "(if length buf > 0 then Write l (processLine mb buf (Tag s)) else (None, l)) = (e2, l1)"
  shows "readOne mb s l w =
     (if err = Some EOF then (None, MarkClosed (setSource s1 (Some r1)), l1, w1)
      else if err \<noteq> None then (err, setSource s1 (Some r1), l1, w1)
      else if e2 \<noteq> None then (e2, setSource s1 (Some r1), l1, w1)
      else (None, setSource s1 (Some r1), l1, w1))"
proof -
  from assms(1) have t: "Tag s1 = Tag s" by (rule Tag_Preread)
  show ?thesis
  proof (cases "buf = []")
    case True
    with assms(4) have "e2 = None" and "l1 = l" by simp_all
    with True assms(1-3) show ?thesis
      by (simp add: readOne_def)
  next
    case False
    with assms(4) have "Write l (processLine mb buf (Tag s)) = (e2, l1)" by simp
    with False assms(1-3) t show ?thesis
      by (simp add: readOne_def Tag_setSource)
  qed
qed

text \<open>
  Claim C1, as amended. In an iteration whose read returns bytes and whose write of
  the tagged bytes fails: when the read signalled end-of-stream on the same call,
  \<^verbatim>\<open>readOne\<close> returns \<^verbatim>\<open>nil\<close>, the recoverable end, with the stream marked
  closed, and the write failure is dropped (the end-of-stream check comes first and
  returns); when the read returned no error, \<^verbatim>\<open>readOne\<close> returns the write
  failure; when the read failed otherwise, it returns the read error.
\<close>

theorem readOne_write_failure:
  assumes "Preread s w = (None, s1, w1)" and "Source s1 = Some r"
    and "ReadBytes r = (buf, err, r1)" and "buf \<noteq> []"
    and "Write l (processLine mb buf (Tag s)) = (Some e2, l1)"
  shows "readOne mb s l w =
     (if err = Some EOF then (None, MarkClosed (setSource s1 (Some r1)), l1, w1)
      else if err = None then (Some e2, setSource s1 (Some r1), l1, w1)
      else (err, setSource s1 (Some r1), l1, w1))"
  using readOne_after_Preread [OF assms(1-3), of l mb "Some e2" l1] assms(4,5)
  by simp

lemma TrimSpace_boom: "TrimSpace ''boom'' = ''boom''"
  by (simp add: TrimSpace_def trimLeft.simps trimRight.simps leadingSpace_def trailingSpace_def
      asciiSpace_def unicodeSpaces_def)

theorem readOne_write_failure_witness:
  "readOne escapeInvalid
     (PipeStream \<lparr>tag = ''t'', raw = ''3:t'', source = Some \<lparr>pending = ''boom'', final = EOF\<rparr>\<rparr> 3)
     \<lparr>sink = \<lparr>written = [], results = [Some (Err ''connection reset'')]\<rparr>\<rparr>
     \<lparr>files = (\<lambda>p. Inl (Err ''no such file'')), stderr = []\<rparr> =
   (None,
    PipeStream \<lparr>tag = ''t'', raw = ''3:t'', source = None\<rparr> 3,
    \<lparr>sink = \<lparr>written = [''t: boom\<newline>''], results = []\<rparr>\<rparr>,
    \<lparr>files = (\<lambda>p. Inl (Err ''no such file'')), stderr = []\<rparr>) \<and>
   readOne escapeInvalid
     (PipeStream \<lparr>tag = ''t'', raw = ''3:t'', source = Some \<lparr>pending = ''boom\<newline>y'', final = EOF\<rparr>\<rparr> 3)
     \<lparr>sink = \<lparr>written = [], results = [Some (Err ''connection reset'')]\<rparr>\<rparr>
     \<lparr>files = (\<lambda>p. Inl (Err ''no such file'')), stderr = []\<rparr> =
   (Some (Err ''connection reset''),
    PipeStream \<lparr>tag = ''t'', raw = ''3:t'', source = Some \<lparr>pending = ''y'', final = EOF\<rparr>\<rparr> 3,
    \<lparr>sink = \<lparr>written = [processLine escapeInvalid ''boom\<newline>'' ''t''], results = []\<rparr>\<rparr>,
    \<lparr>files = (\<lambda>p. Inl (Err ''no such file'')), stderr = []\<rparr>)"
  using readOne_write_failure
    [of "PipeStream \<lparr>tag = ''t'', raw = ''3:t'', source = Some \<lparr>pending = ''boom'', final = EOF\<rparr>\<rparr> 3"
        "\<lparr>files = (\<lambda>p. Inl (Err ''no such file'')), stderr = []\<rparr>"
        "PipeStream \<lparr>tag = ''t'', raw = ''3:t'', source = Some \<lparr>pending = ''boom'', final = EOF\<rparr>\<rparr> 3"
        "\<lparr>files = (\<lambda>p. Inl (Err ''no such file'')), stderr = []\<rparr>"
        "\<lparr>pending = ''boom'', final = EOF\<rparr>" "''boom''" "Some EOF" "\<lparr>pending = [], final = EOF\<rparr>"
        "\<lparr>sink = \<lparr>written = [], results = [Some (Err ''connection reset'')]\<rparr>\<rparr>" escapeInvalid
        "Err ''connection reset''"
        "\<lparr>sink = \<lparr>written = [''t: boom\<newline>''], results = []\<rparr>\<rparr>"]
    readOne_write_failure
    [of "PipeStream \<lparr>tag = ''t'', raw = ''3:t'', source = Some \<lparr>pending = ''boom\<newline>y'', final = EOF\<rparr>\<rparr> 3"
        "\<lparr>files = (\<lambda>p. Inl (Err ''no such file'')), stderr = []\<rparr>"
        "PipeStream \<lparr>tag = ''t'', raw = ''3:t'', source = Some \<lparr>pending = ''boom\<newline>y'', final = EOF\<rparr>\<rparr> 3"
        "\<lparr>files = (\<lambda>p. Inl (Err ''no such file'')), stderr = []\<rparr>"
        "\<lparr>pending = ''boom\<newline>y'', final = EOF\<rparr>" "''boom\<newline>''" None "\<lparr>pending = ''y'', final = EOF\<rparr>"
        "\<lparr>sink = \<lparr>written = [], results = [Some (Err ''connection reset'')]\<rparr>\<rparr>" escapeInvalid
        "Err ''connection reset''"
        "\<lparr>sink = \<lparr>written = [processLine escapeInvalid ''boom\<newline>'' ''t''], results = []\<rparr>\<rparr>"]
  by (simp add: Source_def ReadBytes_def Tag_def Write_def MarkClosed_def processLine_def TrimSpace_boom)

text \<open>
  A final line without line feed, read together with end-of-stream, whose write fails:
  the outcome is \<^verbatim>\<open>nil\<close>, not the write failure.
\<close>

lemma TrimSpace_x: "TrimSpace ''x'' = ''x''"
  by (simp add: TrimSpace_def trimLeft.simps trimRight.simps leadingSpace_def trailingSpace_def
      asciiSpace_def unicodeSpaces_def)

lemma processLine_x: "processLine escapeInvalid ''x'' ''t'' = ''t: x\<newline>''"
  by (simp add: processLine_def TrimSpace_x)

theorem readOne_write_failure_counterexample:
  "readOne escapeInvalid
     (PipeStream \<lparr>tag = ''t'', raw = ''3:t'', source = Some \<lparr>pending = ''x'', final = EOF\<rparr>\<rparr> 3)
     \<lparr>sink = \<lparr>written = [], results = [Some (Err ''broken pipe'')]\<rparr>\<rparr>
     \<lparr>files = (\<lambda>p. Inl (Err ''no such file'')), stderr = []\<rparr> =
   (None,
    PipeStream \<lparr>tag = ''t'', raw = ''3:t'', source = None\<rparr> 3,
    \<lparr>sink = \<lparr>written = [''t: x\<newline>''], results = []\<rparr>\<rparr>,
    \<lparr>files = (\<lambda>p. Inl (Err ''no such file'')), stderr = []\<rparr>)"
  by (simp add: readOne_def Source_def ReadBytes_def Tag_def Write_def MarkClosed_def processLine_x)

lemma TrimSpace_nl: "TrimSpace [CHR 0x0A] = []"
  by (simp add: TrimSpace_def trimLeft.simps trimRight.simps leadingSpace_def trailingSpace_def
      asciiSpace_def unicodeSpaces_def)

lemma processLine_blank: "TrimSpace buf = [] \<Longrightarrow> processLine mb buf tg = []"
  by (simp add: processLine_def)

text \<open>
  Claim C6, as amended. For a line that is read (at least one byte) and trims to empty,
  \<^verbatim>\<open>processLine\<close> returns the empty result and no byte reaches the sink; the
  runner does not skip the write, it hands the empty buffer to the sink's
  \<^verbatim>\<open>Write\<close>, so the sink records one more call, with no bytes.
\<close>

theorem blank_line_writes_no_bytes:
  assumes "TrimSpace buf = []" and "buf \<noteq> []"
    and "Preread s w = (None, s1, w1)" and "Source s1 = Some r"
    and "ReadBytes r = (buf, err, r1)"
    and "readOne mb s l w = (e, s2, l2, w2)"
  shows "processLine mb buf (Tag s) = [] \<and>
         written (sink l2) = written (sink l) @ [[]] \<and>
         concat (written (sink l2)) = concat (written (sink l))"
proof -
  have p: "processLine mb buf (Tag s) = []"
    using assms(1) by (rule processLine_blank)
  obtain e2 l1 where wr: "Write l [] = (e2, l1)" by (cases "Write l []") blast
  then have l1: "written (sink l1) = written (sink l) @ [[]]"
    by (auto simp: Write_def split: list.splits)
  from assms(2) wr p
  have "(if length buf > 0 then Write l (processLine mb buf (Tag s)) else (None, l)) = (e2, l1)"
    by simp
  from readOne_after_Preread [OF assms(3-5) this] assms(6) have "l2 = l1"
    by (simp split: if_splits)
  with l1 p show ?thesis by simp
qed

theorem blank_line_writes_no_bytes_witness:
  "TrimSpace [CHR 0x0A] = [] \<and>
   readOne escapeInvalid
     (PipeStream \<lparr>tag = ''t'', raw = ''3:t'',
        source = Some \<lparr>pending = [CHR 0x0A, CHR ''x''], final = EOF\<rparr>\<rparr> 3)
     \<lparr>sink = \<lparr>written = [''t: a\<newline>''], results = []\<rparr>\<rparr>
     \<lparr>files = (\<lambda>p. Inl (Err ''no such file'')), stderr = []\<rparr> =
   (None,
    PipeStream \<lparr>tag = ''t'', raw = ''3:t'', source = Some \<lparr>pending = ''x'', final = EOF\<rparr>\<rparr> 3,
    \<lparr>sink = \<lparr>written = [''t: a\<newline>'', []], results = []\<rparr>\<rparr>,
    \<lparr>files = (\<lambda>p. Inl (Err ''no such file'')), stderr = []\<rparr>) \<and>
   concat [''t: a\<newline>'', []] = concat [''t: a\<newline>'']"
proof -
  have r: "readOne escapeInvalid
     (PipeStream \<lparr>tag = ''t'', raw = ''3:t'',
        source = Some \<lparr>pending = [CHR 0x0A, CHR ''x''], final = EOF\<rparr>\<rparr> 3)
     \<lparr>sink = \<lparr>written = [''t: a\<newline>''], results = []\<rparr>\<rparr>
     \<lparr>files = (\<lambda>p. Inl (Err ''no such file'')), stderr = []\<rparr> =
   (None,
    PipeStream \<lparr>tag = ''t'', raw = ''3:t'', source = Some \<lparr>pending = ''x'', final = EOF\<rparr>\<rparr> 3,
    \<lparr>sink = \<lparr>written = [''t: a\<newline>'', []], results = []\<rparr>\<rparr>,
    \<lparr>files = (\<lambda>p. Inl (Err ''no such file'')), stderr = []\<rparr>)"
    by (simp add: readOne_def Source_def ReadBytes_def Tag_def Write_def processLine_def TrimSpace_nl)
  have "processLine escapeInvalid [CHR 0x0A]
          (Tag (PipeStream \<lparr>tag = ''t'', raw = ''3:t'',
             source = Some \<lparr>pending = [CHR 0x0A, CHR ''x''], final = EOF\<rparr>\<rparr> 3)) = [] \<and>
        written (sink \<lparr>sink = \<lparr>written = [''t: a\<newline>'', []], results = []\<rparr>\<rparr>) =
          written (sink \<lparr>sink = \<lparr>written = [''t: a\<newline>''], results = []\<rparr>\<rparr>) @ [[]] \<and>
        concat (written (sink \<lparr>sink = \<lparr>written = [''t: a\<newline>'', []], results = []\<rparr>\<rparr>)) =
          concat (written (sink \<lparr>sink = \<lparr>written = [''t: a\<newline>''], results = []\<rparr>\<rparr>))"
    by (rule blank_line_writes_no_bytes [OF TrimSpace_nl _ _ _ _ r,
          where ?s1.0 = "PipeStream \<lparr>tag = ''t'', raw = ''3:t'',
             source = Some \<lparr>pending = [CHR 0x0A, CHR ''x''], final = EOF\<rparr>\<rparr> 3"
          and r = "\<lparr>pending = [CHR 0x0A, CHR ''x''], final = EOF\<rparr>"
          and err = None and ?r1.0 = "\<lparr>pending = ''x'', final = EOF\<rparr>"])
       (simp_all add: Source_def ReadBytes_def)
  with r show ?thesis by (simp add: TrimSpace_nl)
qed

text \<open>
  The write of a blank line is not skipped: on a sink whose next write fails, a bare
  line feed ends the iteration with that failure, after one call of \<^verbatim>\<open>Write\<close> with
  the empty buffer.
\<close>

theorem blank_line_write_not_skipped:
  "readOne escapeInvalid
     (PipeStream \<lparr>tag = ''t'', raw = ''3:t'',
        source = Some \<lparr>pending = [CHR 0x0A], final = EOF\<rparr>\<rparr> 3)
     \<lparr>sink = \<lparr>written = [], results = [Some (Err ''broken pipe'')]\<rparr>\<rparr>
     \<lparr>files = (\<lambda>p. Inl (Err ''no such file'')), stderr = []\<rparr> =
   (Some (Err ''broken pipe''),
    PipeStream \<lparr>tag = ''t'', raw = ''3:t'', source = Some \<lparr>pending = [], final = EOF\<rparr>\<rparr> 3,
    \<lparr>sink = \<lparr>written = [[]], results = []\<rparr>\<rparr>,
    \<lparr>files = (\<lambda>p. Inl (Err ''no such file'')), stderr = []\<rparr>)"
  by (simp add: readOne_def Source_def ReadBytes_def Tag_def Write_def processLine_def TrimSpace_nl)

section \<open>Properties of the line tagger\<close>

lemma hasNonSpace_iff:
  "hasNonSpace bs \<longleftrightarrow> \<not> set bs \<subseteq> {CHR '' '', CHR 0x09, CHR 0x0D, CHR 0x0A}"
  by (induction bs) auto

lemma quoteBytes_plain: "list_all plainByte tg \<Longrightarrow> quoteBytes mb tg = tg"
  by (induction tg) (auto simp: plainByte_def escapeASCII_def)

lemma Quote_plain: "list_all plainByte tg \<Longrightarrow> Quote mb tg = CHR 0x22 # tg @ [CHR 0x22]"
  by (simp add: Quote_def quoteBytes_plain)

lemma processLine_object:
  assumes "TrimSpace buf = CHR ''{'' # interior @ [CHR ''}'']"
  shows \<open>processLine mb buf tg =
     (if hasNonSpace interior
      then CHR ''{'' # interior @ '',"tag":'' @ Quote mb tg @ ''}'' @ [CHR 0x0A]
      else ''{"tag":'' @ Quote mb tg @ ''}'' @ [CHR 0x0A])\<close>
proof -
  let ?t = "CHR ''{'' # interior @ [CHR ''}'']"
  have last: "?t ! (length ?t - 1) = CHR ''}''"
    by (simp add: nth_append)
  have s1: "slice ?t 1 (length ?t - 1) = interior"
    by (simp add: slice_def)
  have s0: "slice ?t 0 (length ?t - 1) = CHR ''{'' # interior"
    by (simp add: slice_def)
  show ?thesis
    unfolding processLine_def assms Let_def
    using last s1 s0 by simp
qed

text \<open>
  Claim C4, as amended. When the trimmed line is an opening brace, an interior with at
  least one byte other than space, tab, carriage return and line feed, and a closing
  brace, \<^verbatim>\<open>processLine\<close> returns the opening brace and the interior unchanged,
  then \<^verbatim>\<open>,"tag":\<close> followed by the tag as \<^verbatim>\<open>%q\<close> quotes it, the closing
  brace and one line feed. The quoted tag is the tag between double quotes when the tag
  holds only printable ASCII other than the double quote and the backslash; other bytes
  are escaped.
\<close>

theorem processLine_object_with_members:
  assumes "TrimSpace buf = CHR ''{'' # interior @ [CHR ''}'']"
    and "\<not> set interior \<subseteq> {CHR '' '', CHR 0x09, CHR 0x0D, CHR 0x0A}"
  shows \<open>processLine mb buf tg =
           CHR ''{'' # interior @ '',"tag":'' @ Quote mb tg @ ''}'' @ [CHR 0x0A] \<and>
         (list_all plainByte tg \<longrightarrow>
            processLine mb buf tg =
              CHR ''{'' # interior @ '',"tag":"'' @ tg @ ''"}'' @ [CHR 0x0A])\<close>
  using processLine_object [OF assms(1), of mb tg] assms(2)
  by (simp add: hasNonSpace_iff Quote_plain)

lemma TrimSpace_boom_object: \<open>TrimSpace ''  {"msg":"boom"}  \<newline>'' = ''{"msg":"boom"}''\<close>
  by (simp add: TrimSpace_def trimLeft.simps trimRight.simps leadingSpace_def trailingSpace_def
      asciiSpace_def unicodeSpaces_def)

theorem processLine_object_with_members_witness:
  \<open>TrimSpace ''  {"msg":"boom"}  \<newline>'' = CHR ''{'' # ''"msg":"boom"'' @ [CHR ''}''] \<and>
   \<not> set ''"msg":"boom"'' \<subseteq> {CHR '' '', CHR 0x09, CHR 0x0D, CHR 0x0A} \<and>
   list_all plainByte ''app.error'' \<and>
   processLine escapeInvalid ''  {"msg":"boom"}  \<newline>'' ''app.error'' =
     ''{"msg":"boom","tag":"app.error"}\<newline>''\<close>
  using processLine_object_with_members
    [of \<open>''  {"msg":"boom"}  \<newline>''\<close> \<open>''"msg":"boom"''\<close> escapeInvalid "''app.error''"]
  by (simp add: TrimSpace_boom_object plainByte_def Quote_plain)

text \<open>
  A tag with a double quote in it is not spliced as it is: the quote is escaped.
\<close>

lemma TrimSpace_a1: \<open>TrimSpace ''{"a":1}\<newline>'' = ''{"a":1}''\<close>
  by (simp add: TrimSpace_def trimLeft.simps trimRight.simps leadingSpace_def trailingSpace_def
      asciiSpace_def unicodeSpaces_def)

theorem processLine_object_with_members_counterexample:
  \<open>processLine escapeInvalid ''{"a":1}\<newline>'' ''a"b'' =
     ''{"a":1,"tag":"a'' @ [CHR 0x5C] @ ''"b"}\<newline>'' \<and>
   processLine escapeInvalid ''{"a":1}\<newline>'' ''a"b'' \<noteq> ''{"a":1,"tag":"a"b"}\<newline>''\<close>
  by (simp add: processLine_def TrimSpace_a1 slice_def Quote_def escapeASCII_def)

text \<open>
  Claim C5, as amended. When the trimmed line is an opening brace, an interior that is
  empty or holds only spaces, tabs, carriage returns and line feeds, and a closing
  brace, \<^verbatim>\<open>processLine\<close> returns \<^verbatim>\<open>{"tag":\<close>, the tag as \<^verbatim>\<open>%q\<close> quotes
  it, the closing brace and one line feed. The quoted tag is the tag between double
  quotes when the tag holds only printable ASCII other than the double quote and the
  backslash.
\<close>

theorem processLine_empty_object:
  assumes "TrimSpace buf = CHR ''{'' # interior @ [CHR ''}'']"
    and "set interior \<subseteq> {CHR '' '', CHR 0x09, CHR 0x0D, CHR 0x0A}"
  shows \<open>processLine mb buf tg = ''{"tag":'' @ Quote mb tg @ ''}'' @ [CHR 0x0A] \<and>
         (list_all plainByte tg \<longrightarrow>
            processLine mb buf tg = ''{"tag":"'' @ tg @ ''"}'' @ [CHR 0x0A])\<close>
  using processLine_object [OF assms(1), of mb tg] assms(2)
  by (simp add: hasNonSpace_iff Quote_plain)

lemma TrimSpace_blank_object: \<open>TrimSpace ''{ }\<newline>'' = ''{ }''\<close>
  by (simp add: TrimSpace_def trimLeft.simps trimRight.simps leadingSpace_def trailingSpace_def
      asciiSpace_def unicodeSpaces_def)

theorem processLine_empty_object_witness:
  \<open>TrimSpace ''{ }\<newline>'' = CHR ''{'' # '' '' @ [CHR ''}''] \<and>
   set '' '' \<subseteq> {CHR '' '', CHR 0x09, CHR 0x0D, CHR 0x0A} \<and>
   list_all plainByte ''app.error'' \<and>
   processLine escapeInvalid ''{ }\<newline>'' ''app.error'' = ''{"tag":"app.error"}\<newline>''\<close>
  using processLine_empty_object [of \<open>''{ }\<newline>''\<close> \<open>'' ''\<close> escapeInvalid "''app.error''"]
  by (simp add: TrimSpace_blank_object plainByte_def Quote_plain)

text \<open>
  A tag with a double quote in it is escaped; and an interior of one vertical tab,
  white space for the trimmer but not for \<^verbatim>\<open>hasNonSpace\<close>, is kept and spliced.
\<close>

lemma TrimSpace_empty_object: \<open>TrimSpace ''{}\<newline>'' = ''{}''\<close>
  by (simp add: TrimSpace_def trimLeft.simps trimRight.simps leadingSpace_def trailingSpace_def
      asciiSpace_def unicodeSpaces_def)

lemma TrimSpace_vtab_object:
  \<open>TrimSpace [CHR ''{'', CHR 0x0B, CHR ''}'', CHR 0x0A] = [CHR ''{'', CHR 0x0B, CHR ''}'']\<close>
  by (simp add: TrimSpace_def trimLeft.simps trimRight.simps leadingSpace_def trailingSpace_def
      asciiSpace_def unicodeSpaces_def)

theorem processLine_empty_object_counterexample:
  \<open>processLine escapeInvalid ''{}\<newline>'' ''a"b'' = ''{"tag":"a'' @ [CHR 0x5C] @ ''"b"}\<newline>'' \<and>
   processLine escapeInvalid ''{}\<newline>'' ''a"b'' \<noteq> ''{"tag":"a"b"}\<newline>'' \<and>
   asciiSpace (CHR 0x0B) \<and>
   processLine escapeInvalid [CHR ''{'', CHR 0x0B, CHR ''}'', CHR 0x0A] ''t'' =
     [CHR ''{'', CHR 0x0B] @ '',"tag":"t"}\<newline>'' \<and>
   processLine escapeInvalid [CHR ''{'', CHR 0x0B, CHR ''}'', CHR 0x0A] ''t'' \<noteq>
     ''{"tag":"t"}\<newline>''\<close>
  by (simp add: processLine_def TrimSpace_empty_object TrimSpace_vtab_object slice_def Quote_def
      escapeASCII_def asciiSpace_def)

end
